theory Spec2Isabelle
  imports Complex_Main "HOL-Library.AList" "HOL-Library.Sublist"
begin

section \<open>The Qwen OAuth credential broker (scripts/qwen\_oauth\_to\_openapi\_bak.py)\<close>

text \<open>
  A shallow embedding of the script that turns a stored OAuth credential record into
  an OpenAI-style descriptor. Python dictionaries are association lists (their keys
  keep insertion order), looked up with \<open>map_of\<close> and written with \<open>AList.update\<close>,
  which overwrites a key in place and appends a new one, as \<open>dict.update\<close> does.
  Exceptions are values of the type \<open>error\<close>; the file system and the log of HTTP
  requests form an explicit \<open>world\<close> that is passed through the effectful functions.
\<close>

subsection \<open>Values\<close>

text \<open>
  What \<open>json.load\<close> and \<open>response.json()\<close> return. Numbers written with a fraction
  or an exponent, which Python reads as floats, are left out of the value type.
\<close>

datatype json =
    JNull
  | JBool bool
  | JInt int
  | JStr string
  | JList "json list"
  | JObj "(string \<times> json) list"

type_synonym credentials = "(string \<times> json) list"

text \<open>Python truthiness, as tested by \<open>not credentials['refresh_token']\<close>.\<close>

fun py_truthy :: "json \<Rightarrow> bool" where
  "py_truthy JNull = False"
| "py_truthy (JBool b) = b"
| "py_truthy (JInt n) = (n \<noteq> 0)"
| "py_truthy (JStr s) = (s \<noteq> [])"
| "py_truthy (JList xs) = (xs \<noteq> [])"
| "py_truthy (JObj kvs) = (kvs \<noteq> [])"

text \<open>
  The operand of an integer subtraction or multiplication: an int, or a bool (a
  subclass of int in Python). Every other value makes the arithmetic of this script
  raise TypeError.
\<close>

fun py_int_operand :: "json \<Rightarrow> int option" where
  "py_int_operand (JInt n) = Some n"
| "py_int_operand (JBool b) = Some (if b then 1 else 0)"
| "py_int_operand _ = None"

text \<open>\<open>int(x)\<close> on a float truncates towards zero.\<close>

definition py_int :: "real \<Rightarrow> int" where
  "py_int x = (if 0 \<le> x then \<lfloor>x\<rfloor> else \<lceil>x\<rceil>)"

subsection \<open>Errors\<close>

text \<open>
  The exceptions the script can raise. The two \<open>ValueError\<close>s of
  \<open>refresh_access_token\<close> are told apart by their message; the second carries the
  values of \<open>error\<close> and \<open>error_description\<close> that the message is formatted from.
  \<open>HTTPError\<close> (raised by \<open>raise_for_status\<close>) and \<open>ConnectionError\<close> are both
  \<open>requests.RequestException\<close>s.
\<close>

datatype error =
    FileNotFoundError
  | JSONDecodeError
  | ValueError_NoRefreshToken
  | ValueError_TokenRefreshFailed json json
  | HTTPError nat
  | ConnectionError
  | KeyError string
  | TypeError
  | AttributeError
  | ModuleNotFoundError
  | BdbQuit

subsection \<open>Constants\<close>

definition QWEN_OAUTH_BASE_URL :: string where
  "QWEN_OAUTH_BASE_URL = ''https://chat.qwen.ai''"

definition QWEN_OAUTH_TOKEN_ENDPOINT :: string where
  "QWEN_OAUTH_TOKEN_ENDPOINT = QWEN_OAUTH_BASE_URL @ ''/api/v1/oauth2/token''"

definition QWEN_OAUTH_CLIENT_ID :: string where
  "QWEN_OAUTH_CLIENT_ID = ''f0304373b74a44d2b584a3fb70ca9e56''"

definition QWEN_DEFAULT_BASE_URL :: string where
  "QWEN_DEFAULT_BASE_URL = ''https://dashscope.aliyuncs.com/compatible-mode/v1''"

definition QWEN_DIR :: string where
  "QWEN_DIR = ''.qwen''"

definition QWEN_CREDENTIAL_FILENAME :: string where
  "QWEN_CREDENTIAL_FILENAME = ''oauth_creds.json''"

subsection \<open>The environment and the world\<close>

record http_request =
  url :: string
  form_data :: "(string \<times> json) list"
  headers :: "(string \<times> string) list"

text \<open>
  What \<open>requests.post\<close> does with a request: it raises a connection-level exception,
  or it returns a response with a status code and a body; the body is \<open>None\<close> when
  it is not JSON (then \<open>response.json()\<close> raises).
\<close>

datatype http_outcome =
    ConnectionFailed
  | HttpResponse nat "json option"

text \<open>
  The parts of the run-time environment the script reads and does not change:
  \<^item> \<open>home\<close>: the value of \<open>os.path.expanduser("~")\<close>;
  \<^item> \<open>cwd\<close>: the value of \<open>os.getcwd()\<close>, used by \<open>os.path.abspath\<close>;
  \<^item> \<open>json_load\<close>, \<open>json_dump\<close>: the decoder and the encoder of Python's \<open>json\<close>
    module (\<open>json.load\<close>, and \<open>json.dump\<close> with \<open>indent=2\<close>), on the content of a file;
    the decoder's result is taken at its declared type, a dictionary;
  \<^item> \<open>requests_post\<close>: the behaviour of the network and the token endpoint;
  \<^item> \<open>ipdb_set_trace\<close>: the outcome of the statement \<open>import ipdb; ipdb.set_trace()\<close>
    left in \<open>refresh_access_token\<close>: \<open>None\<close> when the debugger is installed and the
    session is continued, an error when the import fails or the session is quit.
\<close>

record env =
  home :: string
  cwd :: string
  json_load :: "string \<Rightarrow> error + credentials"
  json_dump :: "credentials \<Rightarrow> string"
  requests_post :: "http_request \<Rightarrow> http_outcome"
  ipdb_set_trace :: "error option"

text \<open>
  What the script can change: the content of files by path, the directories it has
  made sure exist, and the requests it has sent, oldest first. A file is there or
  not; failures of the operating system beyond a missing file or an empty directory
  name (permissions, a full disk) are not part of the model.
\<close>

record world =
  files :: "string \<rightharpoonup> string"
  dirs :: "string set"
  posted :: "http_request list"

subsection \<open>POSIX path functions of \<open>os.path\<close>\<close>

text \<open>\<open>s.split(c)\<close> for a one-character separator.\<close>

fun str_split :: "char \<Rightarrow> string \<Rightarrow> string list" where
  "str_split c [] = [Nil]"
| "str_split c (x # xs) =
     (if x = c then [] # str_split c xs
      else (case str_split c xs of
              [] \<Rightarrow> [x # Nil]
            | y # ys \<Rightarrow> (x # y) # ys))"

text \<open>\<open>sep.join(xs)\<close>.\<close>

fun str_join :: "string \<Rightarrow> string list \<Rightarrow> string" where
  "str_join sep [] = []"
| "str_join sep [x] = x"
| "str_join sep (x # y # ys) = x @ sep @ str_join sep (y # ys)"

text \<open>
  \<open>os.path.join(a, *p)\<close>: a component that starts with a slash discards what came
  before it; otherwise one slash separates the components.
\<close>

definition path_join_step :: "string \<Rightarrow> string \<Rightarrow> string" where
  "path_join_step path b =
     (if prefix ''/'' b then b
      else if path = [] \<or> suffix ''/'' path then path @ b
      else path @ ''/'' @ b)"

definition path_join :: "string \<Rightarrow> string list \<Rightarrow> string" where
  "path_join a p = foldl path_join_step a p"

text \<open>
  \<open>os.path.normpath(path)\<close>: drops empty and \<open>.\<close> components, resolves \<open>..\<close>
  against the component before it, keeps one leading slash (two when the path starts
  with exactly two).
\<close>

definition normpath_step :: "bool \<Rightarrow> string list \<Rightarrow> string \<Rightarrow> string list" where
  "normpath_step initial_slashes new_comps component =
     (if component = [] \<or> component = ''.'' then new_comps
      else if component \<noteq> ''..'' \<or> (\<not> initial_slashes \<and> new_comps = [])
                \<or> (new_comps \<noteq> [] \<and> last new_comps = ''..'')
           then new_comps @ [component]
      else if new_comps \<noteq> [] then butlast new_comps
      else new_comps)"

definition normpath :: "string \<Rightarrow> string" where
  "normpath path =
     (if path = [] then ''.''
      else
        let initial_slashes :: nat =
              (if prefix ''/'' path
               then (if prefix ''//'' path \<and> \<not> prefix ''///'' path then 2 else 1)
               else 0);
            comps = foldl (normpath_step (initial_slashes \<noteq> 0)) [] (str_split CHR ''/'' path);
            path' = replicate initial_slashes CHR ''/'' @ str_join ''/'' comps
        in if path' = [] then ''.'' else path')"

text \<open>\<open>os.path.abspath(path)\<close>, with the working directory as a parameter.\<close>

definition abspath :: "string \<Rightarrow> string \<Rightarrow> string" where
  "abspath working_dir path =
     normpath (if prefix ''/'' path then path else path_join working_dir [path])"

text \<open>\<open>s.rstrip('/')\<close>.\<close>

definition rstrip_slash :: "string \<Rightarrow> string" where
  "rstrip_slash s = rev (dropWhile (\<lambda>c. c = CHR ''/'') (rev s))"

text \<open>
  \<open>os.path.dirname(p)\<close>: everything up to the last slash, without trailing
  slashes unless it consists of slashes only.
\<close>

definition dirname :: "string \<Rightarrow> string" where
  "dirname p =
     (let head = rev (dropWhile (\<lambda>c. c \<noteq> CHR ''/'') (rev p))
      in if head \<noteq> [] \<and> head \<noteq> replicate (length head) CHR ''/''
         then rstrip_slash head else head)"

subsection \<open>The script\<close>

text \<open>
  \<open>get_qwen_credential_path\<close>: \<open>if custom_path:\<close> is false for \<open>None\<close> and for the
  empty string.
\<close>

definition get_qwen_credential_path :: "env \<Rightarrow> string option \<Rightarrow> string" where
  "get_qwen_credential_path e custom_path =
     (case custom_path of
        Some p \<Rightarrow>
          if p \<noteq> [] then
            (if prefix ''~/'' p then path_join (home e) [drop 2 p]
             else abspath (cwd e) p)
          else path_join (home e) [QWEN_DIR, QWEN_CREDENTIAL_FILENAME]
      | None \<Rightarrow> path_join (home e) [QWEN_DIR, QWEN_CREDENTIAL_FILENAME])"

definition load_qwen_credentials :: "env \<Rightarrow> string option \<Rightarrow> world \<Rightarrow> error + credentials" where
  "load_qwen_credentials e custom_path w =
     (let credential_path = get_qwen_credential_path e custom_path
      in case files w credential_path of
           None \<Rightarrow> Inl FileNotFoundError
         | Some content \<Rightarrow> json_load e content)"

text \<open>
  \<open>is_token_valid\<close>, with the value of \<open>time.time() * 1000\<close> as the parameter
  \<open>now_ms\<close>. Python compares a float and an int by their exact values.
\<close>

definition TOKEN_REFRESH_BUFFER_MS :: int where
  "TOKEN_REFRESH_BUFFER_MS = 30 * 1000"

definition is_token_valid :: "real \<Rightarrow> credentials \<Rightarrow> error + bool" where
  "is_token_valid now_ms credentials =
     (case map_of credentials ''expiry_date'' of
        None \<Rightarrow> Inr False
      | Some v \<Rightarrow>
          (case py_int_operand v of
             None \<Rightarrow> Inl TypeError
           | Some expiry_date \<Rightarrow>
               Inr (now_ms < real_of_int (expiry_date - TOKEN_REFRESH_BUFFER_MS))))"

text \<open>The request \<open>refresh_access_token\<close> sends.\<close>

definition refresh_request :: "json \<Rightarrow> http_request" where
  "refresh_request refresh_token =
     \<lparr> url = QWEN_OAUTH_TOKEN_ENDPOINT,
       form_data = [(''grant_type'', JStr ''refresh_token''),
                    (''refresh_token'', refresh_token),
                    (''client_id'', JStr QWEN_OAUTH_CLIENT_ID)],
       headers = [(''Content-Type'', ''application/x-www-form-urlencoded''),
                  (''Accept'', ''application/json'')] \<rparr>"

text \<open>\<open>d.get(k, default)\<close>.\<close>

definition dict_get :: "(string \<times> json) list \<Rightarrow> string \<Rightarrow> json \<Rightarrow> json" where
  "dict_get d k dflt = (case map_of d k of None \<Rightarrow> dflt | Some v \<Rightarrow> v)"

text \<open>
  The last part of \<open>refresh_access_token\<close>, from the test for an \<open>error\<close> key on:
  the four values of the update are computed in the order of the source, so a missing
  \<open>access_token\<close> is reported before a missing \<open>expires_in\<close>. \<open>now_ms\<close> is the
  value of \<open>time.time() * 1000\<close> there.
\<close>

definition update_credentials ::
    "real \<Rightarrow> credentials \<Rightarrow> json \<Rightarrow> (string \<times> json) list \<Rightarrow> error + credentials" where
  "update_credentials now_ms credentials refresh_token token_data =
     (case map_of token_data ''error'' of
        Some err \<Rightarrow>
          Inl (ValueError_TokenRefreshFailed err (dict_get token_data ''error_description'' (JStr [])))
      | None \<Rightarrow>
          (case map_of token_data ''access_token'' of
             None \<Rightarrow> Inl (KeyError ''access_token'')
           | Some access_token \<Rightarrow>
               (case map_of token_data ''expires_in'' of
                  None \<Rightarrow> Inl (KeyError ''expires_in'')
                | Some v \<Rightarrow>
                    (case py_int_operand v of
                       None \<Rightarrow> Inl TypeError
                     | Some expires_in \<Rightarrow>
                         Inr (AList.update ''expiry_date'' (JInt (py_int now_ms + expires_in * 1000))
                             (AList.update ''refresh_token'' (dict_get token_data ''refresh_token'' refresh_token)
                             (AList.update ''token_type'' (dict_get token_data ''token_type'' (JStr ''Bearer''))
                             (AList.update ''access_token'' access_token credentials))))))))"

text \<open>
  \<open>refresh_access_token\<close>. \<open>raise_for_status\<close> raises for the status codes 400 to
  599. A body that is JSON but not an object makes every path after it raise
  TypeError: the test \<open>'error' in token_data\<close> itself on null, a number or a bool,
  and the subscript with a string key on a list or a string.
\<close>

definition refresh_access_token ::
    "env \<Rightarrow> real \<Rightarrow> credentials \<Rightarrow> world \<Rightarrow> (error + credentials) \<times> world" where
  "refresh_access_token e now_ms credentials w =
     (case map_of credentials ''refresh_token'' of
        None \<Rightarrow> (Inl ValueError_NoRefreshToken, w)
      | Some refresh_token \<Rightarrow>
          if \<not> py_truthy refresh_token then (Inl ValueError_NoRefreshToken, w)
          else
            let request = refresh_request refresh_token;
                w' = w\<lparr>posted := posted w @ [request]\<rparr>
            in (case requests_post e request of
                  ConnectionFailed \<Rightarrow> (Inl ConnectionError, w')
                | HttpResponse status_code body \<Rightarrow>
                    if 400 \<le> status_code \<and> status_code < 600
                    then (Inl (HTTPError status_code), w')
                    else
                      (case ipdb_set_trace e of
                         Some err \<Rightarrow> (Inl err, w')
                       | None \<Rightarrow>
                           (case body of
                              None \<Rightarrow> (Inl JSONDecodeError, w')
                            | Some (JObj token_data) \<Rightarrow>
                                (update_credentials now_ms credentials refresh_token token_data, w')
                            | Some _ \<Rightarrow> (Inl TypeError, w')))))"

text \<open>
  \<open>save_qwen_credentials\<close>: \<open>os.makedirs\<close> raises FileNotFoundError on the empty
  directory name; otherwise the directory exists afterwards and the file holds the
  encoded record.
\<close>

definition save_qwen_credentials ::
    "env \<Rightarrow> credentials \<Rightarrow> string option \<Rightarrow> world \<Rightarrow> error + world" where
  "save_qwen_credentials e credentials custom_path w =
     (let credential_path = get_qwen_credential_path e custom_path
      in if dirname credential_path = [] then Inl FileNotFoundError
         else Inr (w\<lparr>dirs := insert (dirname credential_path) (dirs w),
                    files := (files w)(credential_path \<mapsto> json_dump e credentials)\<rparr>))"

record descriptor =
  api_key :: json
  base_url :: string
  model :: string

text \<open>
  The lines of \<open>get_openapi_credentials\<close> under "Determine base URL". A
  \<open>resource_url\<close> that is not a string has no \<open>startswith\<close>.
\<close>

definition determine_base_url :: "credentials \<Rightarrow> error + string" where
  "determine_base_url credentials =
     (case dict_get credentials ''resource_url'' (JStr QWEN_DEFAULT_BASE_URL) of
        JStr base_url0 \<Rightarrow>
          (let base_url1 = (if \<not> (prefix ''http://'' base_url0 \<or> prefix ''https://'' base_url0)
                            then ''https://'' @ base_url0 else base_url0);
               base_url2 = (if \<not> suffix ''/v1'' base_url1
                            then base_url1 @ ''/v1'' else base_url1)
           in Inr base_url2)
      | _ \<Rightarrow> Inl AttributeError)"

text \<open>The rest of \<open>get_openapi_credentials\<close>, once the record to use is known.\<close>

definition make_descriptor :: "credentials \<Rightarrow> error + descriptor" where
  "make_descriptor credentials =
     (case determine_base_url credentials of
        Inl err \<Rightarrow> Inl err
      | Inr b \<Rightarrow>
          (case map_of credentials ''access_token'' of
             None \<Rightarrow> Inl (KeyError ''access_token'')
           | Some access_token \<Rightarrow>
               Inr \<lparr> api_key = access_token, base_url = b, model = ''qwen3-coder-plus'' \<rparr>))"

text \<open>
  \<open>get_openapi_credentials\<close>. The clock is read twice: \<open>now_check\<close> is the value of
  \<open>time.time() * 1000\<close> in \<open>is_token_valid\<close>, \<open>now_refresh\<close> its value in
  \<open>refresh_access_token\<close>.
\<close>

definition get_openapi_credentials ::
    "env \<Rightarrow> real \<Rightarrow> real \<Rightarrow> string option \<Rightarrow> world \<Rightarrow> (error + descriptor) \<times> world" where
  "get_openapi_credentials e now_check now_refresh custom_path w =
     (case load_qwen_credentials e custom_path w of
        Inl err \<Rightarrow> (Inl err, w)
      | Inr credentials \<Rightarrow>
          (case is_token_valid now_check credentials of
             Inl err \<Rightarrow> (Inl err, w)
           | Inr True \<Rightarrow> (make_descriptor credentials, w)
           | Inr False \<Rightarrow>
               (case refresh_access_token e now_refresh credentials w of
                  (Inl err, w1) \<Rightarrow> (Inl err, w1)
                | (Inr credentials', w1) \<Rightarrow>
                    (case save_qwen_credentials e credentials' custom_path w1 of
                       Inl err \<Rightarrow> (Inl err, w1)
                     | Inr w2 \<Rightarrow> (make_descriptor credentials', w2)))))"

section \<open>Properties\<close>

subsection \<open>Validity check\<close>

text \<open>
  C2. For every record and every current time \<open>now_ms\<close>, \<open>is_token_valid\<close> returns
  \<open>False\<close> when the record has no \<open>expiry_date\<close> key, and when the key holds an
  integer it returns \<open>True\<close> exactly when \<open>now_ms < expiry_date - 30000\<close>. In
  particular an expiry 15000 ms ahead of the clock is reported invalid and one 360000
  ms ahead is reported valid.
\<close>

theorem is_token_valid_buffer:
  "(map_of credentials ''expiry_date'' = None \<longrightarrow>
      is_token_valid now_ms credentials = Inr False) \<and>
   (\<forall>expiry_date. map_of credentials ''expiry_date'' = Some (JInt expiry_date) \<longrightarrow>
      is_token_valid now_ms credentials = Inr (now_ms < real_of_int expiry_date - 30000)) \<and>
   is_token_valid (real_of_int n) [(''expiry_date'', JInt (n + 15000))] = Inr False \<and>
   is_token_valid (real_of_int n) [(''expiry_date'', JInt (n + 360000))] = Inr True"
  by (simp add: is_token_valid_def TOKEN_REFRESH_BUFFER_MS_def)

theorem is_token_valid_buffer_witness:
  "map_of ([] :: credentials) ''expiry_date'' = None \<and>
   is_token_valid 1000 [] = Inr False \<and>
   map_of [(''expiry_date'', JInt 50000)] ''expiry_date'' = Some (JInt 50000) \<and>
   is_token_valid 1000 [(''expiry_date'', JInt 50000)] = Inr True \<and>
   is_token_valid 20000 [(''expiry_date'', JInt 50000)] = Inr False"
  using is_token_valid_buffer [where credentials = "[]" and now_ms = 1000 and n = 0]
        is_token_valid_buffer
          [where credentials = "[(''expiry_date'', JInt 50000)]" and now_ms = 1000 and n = 0]
        is_token_valid_buffer
          [where credentials = "[(''expiry_date'', JInt 50000)]" and now_ms = 20000 and n = 0]
  by simp

subsection \<open>Refresh\<close>

text \<open>
  C5. For every record in which \<open>refresh_token\<close> is absent or is the empty string,
  \<open>refresh_access_token\<close> raises the ValueError "No refresh token available" and
  leaves the world as it was: in particular no request is added to the log, so the
  token endpoint is not contacted.
\<close>

theorem refresh_without_refresh_token:
  assumes "map_of credentials ''refresh_token'' = None
           \<or> map_of credentials ''refresh_token'' = Some (JStr [])"
  shows "refresh_access_token e now_ms credentials w = (Inl ValueError_NoRefreshToken, w)
         \<and> posted (snd (refresh_access_token e now_ms credentials w)) = posted w"
  using assms by (auto simp: refresh_access_token_def)

theorem refresh_without_refresh_token_witness:
  "refresh_access_token
     \<lparr> home = ''/home/u'', cwd = ''/'', json_load = (\<lambda>s. Inl JSONDecodeError),
       json_dump = (\<lambda>c. []), requests_post = (\<lambda>r. HttpResponse 200 (Some (JObj []))),
       ipdb_set_trace = None \<rparr>
     0 [(''access_token'', JStr ''A''), (''refresh_token'', JStr [])]
     \<lparr> files = Map.empty, dirs = {}, posted = [] \<rparr>
   = (Inl ValueError_NoRefreshToken, \<lparr> files = Map.empty, dirs = {}, posted = [] \<rparr>)
   \<and> refresh_access_token
     \<lparr> home = ''/home/u'', cwd = ''/'', json_load = (\<lambda>s. Inl JSONDecodeError),
       json_dump = (\<lambda>c. []), requests_post = (\<lambda>r. HttpResponse 200 (Some (JObj []))),
       ipdb_set_trace = None \<rparr>
     0 [(''access_token'', JStr ''A'')]
     \<lparr> files = Map.empty, dirs = {}, posted = [] \<rparr>
   = (Inl ValueError_NoRefreshToken, \<lparr> files = Map.empty, dirs = {}, posted = [] \<rparr>)"
proof -
  have empty: "map_of [(''access_token'', JStr ''A''), (''refresh_token'', JStr [])] ''refresh_token'' = None
      \<or> map_of [(''access_token'', JStr ''A''), (''refresh_token'', JStr [])] ''refresh_token'' = Some (JStr [])"
    by simp
  have absent: "map_of [(''access_token'', JStr ''A'')] ''refresh_token'' = None
      \<or> map_of [(''access_token'', JStr ''A'')] ''refresh_token'' = Some (JStr [])"
    by simp
  from refresh_without_refresh_token [OF empty] refresh_without_refresh_token [OF absent]
  show ?thesis by simp
qed

text \<open>
  What \<open>refresh_access_token\<close> does once the endpoint has answered with a status
  that \<open>raise_for_status\<close> accepts and a JSON object, and the debugger statement
  has been passed.
\<close>

lemma refresh_access_token_response:
  assumes "map_of credentials ''refresh_token'' = Some refresh_token"
    and "py_truthy refresh_token"
    and "requests_post e (refresh_request refresh_token)
           = HttpResponse status_code (Some (JObj token_data))"
    and "\<not> (400 \<le> status_code \<and> status_code < 600)"
    and "ipdb_set_trace e = None"
  shows "refresh_access_token e now_ms credentials w
           = (update_credentials now_ms credentials refresh_token token_data,
              w\<lparr>posted := posted w @ [refresh_request refresh_token]\<rparr>)"
  using assms by (auto simp: refresh_access_token_def Let_def)

text \<open>
  The ways a refresh fails once a refresh token is there: the connection fails, the
  status is one that \<open>raise_for_status\<close> rejects (400 to 599; other statuses
  outside 200 to 299 pass it), or the body is an object with an \<open>error\<close> key.
\<close>

lemma refresh_access_token_failures:
  assumes "map_of credentials ''refresh_token'' = Some refresh_token"
    and "py_truthy refresh_token"
  shows "requests_post e (refresh_request refresh_token) = ConnectionFailed \<Longrightarrow>
           fst (refresh_access_token e now_ms credentials w) = Inl ConnectionError"
    and "requests_post e (refresh_request refresh_token) = HttpResponse status_code body \<Longrightarrow>
           400 \<le> status_code \<Longrightarrow> status_code < 600 \<Longrightarrow>
           fst (refresh_access_token e now_ms credentials w) = Inl (HTTPError status_code)"
    and "requests_post e (refresh_request refresh_token)
             = HttpResponse status_code (Some (JObj token_data)) \<Longrightarrow>
           \<not> (400 \<le> status_code \<and> status_code < 600) \<Longrightarrow> ipdb_set_trace e = None \<Longrightarrow>
           map_of token_data ''error'' = Some err \<Longrightarrow>
           fst (refresh_access_token e now_ms credentials w)
             = Inl (ValueError_TokenRefreshFailed err
                      (dict_get token_data ''error_description'' (JStr [])))"
  using assms
  by (auto simp: refresh_access_token_def Let_def update_credentials_def)

text \<open>
  The statement \<open>import ipdb; ipdb.set_trace()\<close> stands between every accepted
  response and the reading of its body: where it raises, no refresh returns a record.
\<close>

lemma refresh_access_token_breakpoint:
  assumes "ipdb_set_trace e = Some err"
  shows "fst (refresh_access_token e now_ms credentials w) \<noteq> Inr credentials'"
  using assms
  by (auto simp: refresh_access_token_def Let_def split: option.splits http_outcome.splits)

text \<open>
  C1 does not hold of the code as it stands. The statement
  \<open>import ipdb; ipdb.set_trace()\<close> on line 120 runs after every response that
  \<open>raise_for_status\<close> accepts and before the body is read: where the debugger is not
  installed the import raises, so no response makes \<open>refresh_access_token\<close> return
  a record. Below, a record with the refresh token \<open>R\<close> and the answer 200 with
  \<open>{access_token: "A", expires_in: 3600}\<close>: the request is sent and the call ends in
  ModuleNotFoundError.
\<close>

theorem refresh_stops_at_breakpoint:
  "refresh_access_token
     \<lparr> home = ''/home/u'', cwd = ''/'', json_load = (\<lambda>s. Inl JSONDecodeError),
       json_dump = (\<lambda>c. []),
       requests_post = (\<lambda>r. HttpResponse 200
          (Some (JObj [(''access_token'', JStr ''A''), (''expires_in'', JInt 3600)]))),
       ipdb_set_trace = Some ModuleNotFoundError \<rparr>
     1000000
     [(''access_token'', JStr ''old''), (''refresh_token'', JStr ''R'')]
     \<lparr> files = Map.empty, dirs = {}, posted = [] \<rparr>
   = (Inl ModuleNotFoundError,
      \<lparr> files = Map.empty, dirs = {}, posted = [refresh_request (JStr ''R'')] \<rparr>)"
  by (simp add: refresh_access_token_def)

text \<open>
  What the refresh returns where the debugger statement is passed (the debugger is
  installed and the session is continued), for a 2xx response whose body is an object
  without an \<open>error\<close> field, carrying an \<open>access_token\<close> and an integer
  \<open>expires_in\<close>: the input record with four fields overwritten, \<open>access_token\<close> by
  the response's, \<open>token_type\<close> by the response's or \<open>"Bearer"\<close> when the response
  has none, \<open>refresh_token\<close> by the response's or the input's own when the response
  has none, and \<open>expiry_date\<close> by \<open>int(now_ms) + expires_in * 1000\<close>. Every other field
  of the input record is unchanged. One request is sent.
\<close>

lemma refresh_success:
  assumes "map_of credentials ''refresh_token'' = Some refresh_token"
    and "py_truthy refresh_token"
    and "requests_post e (refresh_request refresh_token)
           = HttpResponse status_code (Some (JObj token_data))"
    and "200 \<le> status_code" and "status_code < 300"
    and "ipdb_set_trace e = None"
    and "map_of token_data ''error'' = None"
    and "map_of token_data ''access_token'' = Some access_token"
    and "map_of token_data ''expires_in'' = Some (JInt expires_in)"
  shows "\<exists>credentials'.
           refresh_access_token e now_ms credentials w
             = (Inr credentials', w\<lparr>posted := posted w @ [refresh_request refresh_token]\<rparr>)
           \<and> map_of credentials' =
               (map_of credentials)
                 (''access_token'' \<mapsto> access_token,
                  ''token_type'' \<mapsto>
                     (case map_of token_data ''token_type'' of
                        None \<Rightarrow> JStr ''Bearer'' | Some t \<Rightarrow> t),
                  ''refresh_token'' \<mapsto>
                     (case map_of token_data ''refresh_token'' of
                        None \<Rightarrow> refresh_token | Some r \<Rightarrow> r),
                  ''expiry_date'' \<mapsto> JInt (py_int now_ms + expires_in * 1000))
           \<and> (\<forall>k. k \<notin> {''access_token'', ''token_type'', ''refresh_token'', ''expiry_date''}
                  \<longrightarrow> map_of credentials' k = map_of credentials k)"
proof -
  from assms(4,5) have "\<not> (400 \<le> status_code \<and> status_code < 600)" by simp
  from refresh_access_token_response [OF assms(1,2,3) this assms(6)]
  have "refresh_access_token e now_ms credentials w
           = (update_credentials now_ms credentials refresh_token token_data,
              w\<lparr>posted := posted w @ [refresh_request refresh_token]\<rparr>)" .
  moreover have "update_credentials now_ms credentials refresh_token token_data
      = Inr (AList.update ''expiry_date'' (JInt (py_int now_ms + expires_in * 1000))
            (AList.update ''refresh_token'' (dict_get token_data ''refresh_token'' refresh_token)
            (AList.update ''token_type'' (dict_get token_data ''token_type'' (JStr ''Bearer''))
            (AList.update ''access_token'' access_token credentials))))"
    using assms(7,8,9) by (simp add: update_credentials_def)
  ultimately show ?thesis
    by (simp add: update_conv' dict_get_def)
qed

lemma refresh_success_example:
  "refresh_access_token
     \<lparr> home = ''/home/u'', cwd = ''/'', json_load = (\<lambda>s. Inl JSONDecodeError),
       json_dump = (\<lambda>c. []),
       requests_post = (\<lambda>r. HttpResponse 200
          (Some (JObj [(''access_token'', JStr ''A''), (''expires_in'', JInt 3600)]))),
       ipdb_set_trace = None \<rparr>
     1000000
     [(''access_token'', JStr ''old''), (''refresh_token'', JStr ''R''),
       (''resource_url'', JStr ''example.com/compat'')]
     \<lparr> files = Map.empty, dirs = {}, posted = [] \<rparr>
   = (Inr [(''access_token'', JStr ''A''), (''refresh_token'', JStr ''R''),
           (''resource_url'', JStr ''example.com/compat''),
           (''token_type'', JStr ''Bearer''), (''expiry_date'', JInt 4600000)],
      \<lparr> files = Map.empty, dirs = {}, posted = [refresh_request (JStr ''R'')] \<rparr>)"
proof -
  let ?e = "\<lparr> home = ''/home/u'', cwd = ''/'', json_load = (\<lambda>s. Inl JSONDecodeError),
       json_dump = (\<lambda>c. []),
       requests_post = (\<lambda>r. HttpResponse 200
          (Some (JObj [(''access_token'', JStr ''A''), (''expires_in'', JInt 3600)]))),
       ipdb_set_trace = None \<rparr>"
  let ?c = "[(''access_token'', JStr ''old''), (''refresh_token'', JStr ''R''),
       (''resource_url'', JStr ''example.com/compat'')]"
  let ?td = "[(''access_token'', JStr ''A''), (''expires_in'', JInt 3600)]"
  have token: "map_of ?c ''refresh_token'' = Some (JStr ''R'')" by simp
  have truthy: "py_truthy (JStr ''R'')" by simp
  have answer: "requests_post ?e (refresh_request (JStr ''R'')) = HttpResponse 200 (Some (JObj ?td))"
    by simp
  have status: "(200::nat) \<le> 200" "(200::nat) < 300" by simp_all
  have debugger: "ipdb_set_trace ?e = None" by simp
  have fields: "map_of ?td ''error'' = None" "map_of ?td ''access_token'' = Some (JStr ''A'')"
    "map_of ?td ''expires_in'' = Some (JInt 3600)" by simp_all
  from refresh_success [OF token truthy answer status debugger fields,
         where now_ms = 1000000 and w = "\<lparr> files = Map.empty, dirs = {}, posted = [] \<rparr>"]
  obtain credentials' where
    "refresh_access_token ?e 1000000 ?c \<lparr> files = Map.empty, dirs = {}, posted = [] \<rparr>
       = (Inr credentials', \<lparr> files = Map.empty, dirs = {}, posted = [refresh_request (JStr ''R'')] \<rparr>)"
    by auto
  then show ?thesis
    by (simp add: refresh_access_token_def update_credentials_def dict_get_def py_int_def)
qed

text \<open>
  C10. For a 2xx response whose body is an object without an \<open>error\<close> field,
  \<open>refresh_access_token\<close> raises KeyError when the body has no \<open>access_token\<close>,
  and KeyError when it has an \<open>access_token\<close> and no \<open>expires_in\<close>: the two fields
  are read without a test for their presence.
\<close>

theorem refresh_missing_response_key:
  assumes "map_of credentials ''refresh_token'' = Some refresh_token"
    and "py_truthy refresh_token"
    and "requests_post e (refresh_request refresh_token)
           = HttpResponse status_code (Some (JObj token_data))"
    and "200 \<le> status_code" and "status_code < 300"
    and "ipdb_set_trace e = None"
    and "map_of token_data ''error'' = None"
  shows "(map_of token_data ''access_token'' = None \<longrightarrow>
            fst (refresh_access_token e now_ms credentials w) = Inl (KeyError ''access_token''))
       \<and> (map_of token_data ''access_token'' \<noteq> None \<and> map_of token_data ''expires_in'' = None \<longrightarrow>
            fst (refresh_access_token e now_ms credentials w) = Inl (KeyError ''expires_in''))"
proof -
  from assms(4,5) have "\<not> (400 \<le> status_code \<and> status_code < 600)" by simp
  from refresh_access_token_response [OF assms(1,2,3) this assms(6)]
  have "fst (refresh_access_token e now_ms credentials w)
          = update_credentials now_ms credentials refresh_token token_data"
    by simp
  then show ?thesis
    using assms(7) by (auto simp: update_credentials_def)
qed

theorem refresh_missing_response_key_witness:
  "fst (refresh_access_token
     \<lparr> home = ''/home/u'', cwd = ''/'', json_load = (\<lambda>s. Inl JSONDecodeError),
       json_dump = (\<lambda>c. []),
       requests_post = (\<lambda>r. HttpResponse 200 (Some (JObj [(''expires_in'', JInt 3600)]))),
       ipdb_set_trace = None \<rparr>
     1000000 [(''refresh_token'', JStr ''R'')]
     \<lparr> files = Map.empty, dirs = {}, posted = [] \<rparr>)
   = Inl (KeyError ''access_token'')
   \<and> fst (refresh_access_token
     \<lparr> home = ''/home/u'', cwd = ''/'', json_load = (\<lambda>s. Inl JSONDecodeError),
       json_dump = (\<lambda>c. []),
       requests_post = (\<lambda>r. HttpResponse 200 (Some (JObj [(''access_token'', JStr ''A'')]))),
       ipdb_set_trace = None \<rparr>
     1000000 [(''refresh_token'', JStr ''R'')]
     \<lparr> files = Map.empty, dirs = {}, posted = [] \<rparr>)
   = Inl (KeyError ''expires_in'')"
proof -
  let ?e = "\<lparr> home = ''/home/u'', cwd = ''/'', json_load = (\<lambda>s. Inl JSONDecodeError),
       json_dump = (\<lambda>c. []),
       requests_post = (\<lambda>r. HttpResponse 200 (Some (JObj [(''expires_in'', JInt 3600)]))),
       ipdb_set_trace = None \<rparr>"
  let ?e' = "\<lparr> home = ''/home/u'', cwd = ''/'', json_load = (\<lambda>s. Inl JSONDecodeError),
       json_dump = (\<lambda>c. []),
       requests_post = (\<lambda>r. HttpResponse 200 (Some (JObj [(''access_token'', JStr ''A'')]))),
       ipdb_set_trace = None \<rparr>"
  let ?c = "[(''refresh_token'', JStr ''R'')]"
  have token: "map_of ?c ''refresh_token'' = Some (JStr ''R'')" by simp
  have truthy: "py_truthy (JStr ''R'')" by simp
  have status: "(200::nat) \<le> 200" "(200::nat) < 300" by simp_all
  have answer: "requests_post ?e (refresh_request (JStr ''R''))
                  = HttpResponse 200 (Some (JObj [(''expires_in'', JInt 3600)]))"
    by simp
  have answer': "requests_post ?e' (refresh_request (JStr ''R''))
                  = HttpResponse 200 (Some (JObj [(''access_token'', JStr ''A'')]))"
    by simp
  have debugger: "ipdb_set_trace ?e = None" "ipdb_set_trace ?e' = None" by simp_all
  have no_error: "map_of [(''expires_in'', JInt 3600)] ''error'' = None"
    "map_of [(''access_token'', JStr ''A'')] ''error'' = None" by simp_all
  have no_token: "map_of [(''expires_in'', JInt 3600)] ''access_token'' = None" by simp
  have no_expiry: "map_of [(''access_token'', JStr ''A'')] ''access_token'' \<noteq> None
      \<and> map_of [(''access_token'', JStr ''A'')] ''expires_in'' = None" by simp
  from refresh_missing_response_key [OF token truthy answer status debugger(1) no_error(1),
         where now_ms = 1000000 and w = "\<lparr> files = Map.empty, dirs = {}, posted = [] \<rparr>"] no_token
  have first: "fst (refresh_access_token ?e 1000000 ?c \<lparr> files = Map.empty, dirs = {}, posted = [] \<rparr>) = Inl (KeyError ''access_token'')"
    by blast
  from refresh_missing_response_key [OF token truthy answer' status debugger(2) no_error(2),
         where now_ms = 1000000 and w = "\<lparr> files = Map.empty, dirs = {}, posted = [] \<rparr>"] no_expiry
  have second: "fst (refresh_access_token ?e' 1000000 ?c \<lparr> files = Map.empty, dirs = {}, posted = [] \<rparr>) = Inl (KeyError ''expires_in'')"
    by blast
  from first second show ?thesis by simp
qed

subsection \<open>The broker\<close>

text \<open>
  \<open>refresh_access_token\<close> touches neither files nor directories, and a successful
  refresh keeps every key other than the four it writes.
\<close>

lemma refresh_access_token_frame:
  "files (snd (refresh_access_token e now_ms credentials w)) = files w
   \<and> dirs (snd (refresh_access_token e now_ms credentials w)) = dirs w"
  by (simp add: refresh_access_token_def Let_def
           split: option.split http_outcome.split json.split)

lemma update_credentials_other_keys:
  assumes "update_credentials now_ms credentials refresh_token token_data = Inr credentials'"
    and "k \<notin> {''access_token'', ''token_type'', ''refresh_token'', ''expiry_date''}"
  shows "map_of credentials' k = map_of credentials k"
  using assms
  by (auto simp: update_credentials_def update_conv' split: option.splits)

lemma refresh_access_token_other_keys:
  assumes "refresh_access_token e now_ms credentials w = (Inr credentials', w1)"
    and "k \<notin> {''access_token'', ''token_type'', ''refresh_token'', ''expiry_date''}"
  shows "map_of credentials' k = map_of credentials k"
  using assms update_credentials_other_keys [of now_ms credentials _ _ credentials' k]
  by (auto simp: refresh_access_token_def Let_def
           split: option.splits http_outcome.splits json.splits if_splits)

text \<open>
  C4. Whenever the loaded record is stale and \<open>refresh_access_token\<close> fails, for
  whatever reason, \<open>get_openapi_credentials\<close> fails with the same error, and the
  files and directories are those it started from: nothing is saved before a refresh
  has succeeded.
\<close>

theorem failed_refresh_leaves_file:
  assumes "load_qwen_credentials e custom_path w = Inr credentials"
    and "is_token_valid now_check credentials = Inr False"
    and "refresh_access_token e now_refresh credentials w = (Inl err, w1)"
  shows "get_openapi_credentials e now_check now_refresh custom_path w = (Inl err, w1)
         \<and> files w1 = files w \<and> dirs w1 = dirs w"
proof -
  have "get_openapi_credentials e now_check now_refresh custom_path w = (Inl err, w1)"
    using assms by (simp add: get_openapi_credentials_def)
  moreover have "files w1 = files w \<and> dirs w1 = dirs w"
    using refresh_access_token_frame [of e now_refresh credentials w] assms(3) by simp
  ultimately show ?thesis by simp
qed

theorem failed_refresh_leaves_file_witness:
  "get_openapi_credentials
     \<lparr> home = ''/home/u'', cwd = ''/'',
       json_load = (\<lambda>s. if s = ''doc'' then Inr [(''refresh_token'', JStr ''R''), (''expiry_date'', JInt 0)]
                         else Inl JSONDecodeError),
       json_dump = (\<lambda>c. ''new doc''),
       requests_post = (\<lambda>r. HttpResponse 401 None),
       ipdb_set_trace = None \<rparr>
     1000 1000 None
     \<lparr> files = [''/home/u/.qwen/oauth_creds.json'' \<mapsto> ''doc''], dirs = {}, posted = [] \<rparr>
   = (Inl (HTTPError 401),
      \<lparr> files = [''/home/u/.qwen/oauth_creds.json'' \<mapsto> ''doc''], dirs = {}, posted = [refresh_request (JStr ''R'')] \<rparr>)"
proof -
  let ?e = "\<lparr> home = ''/home/u'', cwd = ''/'',
       json_load = (\<lambda>s. if s = ''doc'' then Inr [(''refresh_token'', JStr ''R''), (''expiry_date'', JInt 0)]
                         else Inl JSONDecodeError),
       json_dump = (\<lambda>c. ''new doc''),
       requests_post = (\<lambda>r. HttpResponse 401 None),
       ipdb_set_trace = None \<rparr>"
  let ?w = "\<lparr> files = [''/home/u/.qwen/oauth_creds.json'' \<mapsto> ''doc''], dirs = {}, posted = [] \<rparr>"
  let ?w1 = "\<lparr> files = [''/home/u/.qwen/oauth_creds.json'' \<mapsto> ''doc''], dirs = {}, posted = [refresh_request (JStr ''R'')] \<rparr>"
  let ?c = "[(''refresh_token'', JStr ''R''), (''expiry_date'', JInt 0)]"
  have loaded: "load_qwen_credentials ?e None ?w = Inr ?c"
    by (simp add: load_qwen_credentials_def get_qwen_credential_path_def path_join_def
          path_join_step_def QWEN_DIR_def QWEN_CREDENTIAL_FILENAME_def suffix_to_prefix)
  have stale: "is_token_valid 1000 ?c = Inr False"
    by (simp add: is_token_valid_def TOKEN_REFRESH_BUFFER_MS_def)
  have failed: "refresh_access_token ?e 1000 ?c ?w = (Inl (HTTPError 401), ?w1)"
    by (simp add: refresh_access_token_def)
  from failed_refresh_leaves_file [OF loaded stale failed] show ?thesis by simp
qed

text \<open>
  The other branch, for comparison: after a successful refresh the new record is
  saved to the file it was loaded from, and the descriptor is made from it.
\<close>

lemma stale_record_refreshed_and_saved:
  assumes "load_qwen_credentials e custom_path w = Inr credentials"
    and "is_token_valid now_check credentials = Inr False"
    and "refresh_access_token e now_refresh credentials w = (Inr credentials', w1)"
    and "dirname (get_qwen_credential_path e custom_path) \<noteq> []"
  shows "\<exists>w2. get_openapi_credentials e now_check now_refresh custom_path w
                 = (make_descriptor credentials', w2)
              \<and> files w2 = (files w)(get_qwen_credential_path e custom_path
                                        \<mapsto> json_dump e credentials')"
proof -
  have "files w1 = files w"
    using refresh_access_token_frame [of e now_refresh credentials w] assms(3) by simp
  with assms show ?thesis
    by (simp add: get_openapi_credentials_def save_qwen_credentials_def Let_def)
qed

text \<open>
  C6. Whenever the loaded record is valid at the time of the check,
  \<open>get_openapi_credentials\<close> returns what the loaded record itself gives and leaves
  the world as it was: no request is sent, no file is written.
\<close>

theorem valid_record_not_refreshed:
  assumes "load_qwen_credentials e custom_path w = Inr credentials"
    and "is_token_valid now_check credentials = Inr True"
  shows "get_openapi_credentials e now_check now_refresh custom_path w
           = (make_descriptor credentials, w)"
  using assms by (simp add: get_openapi_credentials_def)

theorem valid_record_not_refreshed_witness:
  "get_openapi_credentials
     \<lparr> home = ''/home/u'', cwd = ''/'',
       json_load = (\<lambda>s. if s = ''doc'' then Inr [(''access_token'', JStr ''A''), (''expiry_date'', JInt 361000)]
                         else Inl JSONDecodeError),
       json_dump = (\<lambda>c. ''new doc''),
       requests_post = (\<lambda>r. ConnectionFailed),
       ipdb_set_trace = None \<rparr>
     1000 1000 None
     \<lparr> files = [''/home/u/.qwen/oauth_creds.json'' \<mapsto> ''doc''], dirs = {}, posted = [] \<rparr>
   = (Inr \<lparr> api_key = JStr ''A'',
            base_url = ''https://dashscope.aliyuncs.com/compatible-mode/v1'',
            model = ''qwen3-coder-plus'' \<rparr>,
      \<lparr> files = [''/home/u/.qwen/oauth_creds.json'' \<mapsto> ''doc''], dirs = {}, posted = [] \<rparr>)"
proof -
  let ?e = "\<lparr> home = ''/home/u'', cwd = ''/'',
       json_load = (\<lambda>s. if s = ''doc'' then Inr [(''access_token'', JStr ''A''), (''expiry_date'', JInt 361000)]
                         else Inl JSONDecodeError),
       json_dump = (\<lambda>c. ''new doc''),
       requests_post = (\<lambda>r. ConnectionFailed),
       ipdb_set_trace = None \<rparr>"
  let ?w = "\<lparr> files = [''/home/u/.qwen/oauth_creds.json'' \<mapsto> ''doc''], dirs = {}, posted = [] \<rparr>"
  let ?c = "[(''access_token'', JStr ''A''), (''expiry_date'', JInt 361000)]"
  have loaded: "load_qwen_credentials ?e None ?w = Inr ?c"
    by (simp add: load_qwen_credentials_def get_qwen_credential_path_def path_join_def
          path_join_step_def QWEN_DIR_def QWEN_CREDENTIAL_FILENAME_def suffix_to_prefix)
  have valid: "is_token_valid 1000 ?c = Inr True"
    by (simp add: is_token_valid_def TOKEN_REFRESH_BUFFER_MS_def)
  from valid_record_not_refreshed [OF loaded valid, where now_refresh = 1000]
  show ?thesis
    by (simp add: make_descriptor_def determine_base_url_def dict_get_def
          QWEN_DEFAULT_BASE_URL_def suffix_to_prefix)
qed

text \<open>The base URL that \<open>determine_base_url\<close> returns, and its shape.\<close>

lemma determine_base_url_shape:
  assumes "determine_base_url credentials = Inr b"
  shows "\<exists>u. (map_of credentials ''resource_url'' = None \<and> u = QWEN_DEFAULT_BASE_URL
              \<or> map_of credentials ''resource_url'' = Some (JStr u))
           \<and> b = (let b1 = (if prefix ''http://'' u \<or> prefix ''https://'' u then u
                             else ''https://'' @ u)
                  in if suffix ''/v1'' b1 then b1 else b1 @ ''/v1'')"
  using assms
  by (auto simp: determine_base_url_def dict_get_def Let_def split: option.splits json.splits)

lemma normalised_ends_v1:
  "suffix ''/v1'' (let b1 = (if prefix ''http://'' u \<or> prefix ''https://'' u then u
                             else ''https://'' @ u)
                  in if suffix ''/v1'' b1 then b1 else b1 @ ''/v1'')"
  by (simp add: Let_def suffix_def)

lemma normalised_has_scheme:
  "prefix ''http://'' (let b1 = (if prefix ''http://'' u \<or> prefix ''https://'' u then u
                             else ''https://'' @ u)
                  in if suffix ''/v1'' b1 then b1 else b1 @ ''/v1'')
   \<or> prefix ''https://'' (let b1 = (if prefix ''http://'' u \<or> prefix ''https://'' u then u
                             else ''https://'' @ u)
                  in if suffix ''/v1'' b1 then b1 else b1 @ ''/v1'')"
  by (auto simp: Let_def prefix_def)


lemma get_openapi_credentials_final_record:
  assumes "load_qwen_credentials e custom_path w = Inr credentials"
    and "get_openapi_credentials e now_check now_refresh custom_path w = (Inr d, w')"
  shows "\<exists>credentials'. make_descriptor credentials' = Inr d
           \<and> map_of credentials' ''resource_url'' = map_of credentials ''resource_url''"
proof (cases "is_token_valid now_check credentials")
  case (Inl err)
  with assms show ?thesis by (simp add: get_openapi_credentials_def)
next
  case (Inr valid)
  show ?thesis
  proof (cases valid)
    case True
    with Inr assms show ?thesis by (auto simp: get_openapi_credentials_def)
  next
    case False
    obtain r w1 where r: "refresh_access_token e now_refresh credentials w = (r, w1)"
      by (cases "refresh_access_token e now_refresh credentials w")
    show ?thesis
    proof (cases r)
      case (Inl err)
      with r False Inr assms show ?thesis by (simp add: get_openapi_credentials_def)
    next
      case (Inr credentials')
      have keep: "map_of credentials' ''resource_url'' = map_of credentials ''resource_url''"
        using refresh_access_token_other_keys [of e now_refresh credentials w credentials' w1
                "''resource_url''"] r Inr
        by simp
      have "make_descriptor credentials' = Inr d"
        using assms r Inr False \<open>is_token_valid now_check credentials = Inr valid\<close>
        by (auto simp: get_openapi_credentials_def split: sum.splits)
      with keep show ?thesis by blast
    qed
  qed
qed

text \<open>
  C3. Whenever \<open>get_openapi_credentials\<close> returns a descriptor, its \<open>base_url\<close> is
  obtained from the loaded record's \<open>resource_url\<close>, or from the default base URL
  when the record has none, by putting \<open>https://\<close> in front unless it starts with
  \<open>http://\<close> or \<open>https://\<close>, and then \<open>/v1\<close> behind unless it ends with \<open>/v1\<close>. So
  the returned \<open>base_url\<close> always ends with \<open>/v1\<close> and starts with a scheme.
\<close>

theorem base_url_normalised:
  assumes "load_qwen_credentials e custom_path w = Inr credentials"
    and "get_openapi_credentials e now_check now_refresh custom_path w = (Inr d, w')"
  shows "\<exists>u. (map_of credentials ''resource_url'' = None \<and> u = QWEN_DEFAULT_BASE_URL
              \<or> map_of credentials ''resource_url'' = Some (JStr u))
           \<and> base_url d =
               (let b1 = (if prefix ''http://'' u \<or> prefix ''https://'' u then u
                          else ''https://'' @ u)
                in if suffix ''/v1'' b1 then b1 else b1 @ ''/v1'')
           \<and> suffix ''/v1'' (base_url d)
           \<and> (prefix ''http://'' (base_url d) \<or> prefix ''https://'' (base_url d))"
proof -
  from get_openapi_credentials_final_record [OF assms]
  obtain credentials' where d: "make_descriptor credentials' = Inr d"
    and keep: "map_of credentials' ''resource_url'' = map_of credentials ''resource_url''"
    by blast
  from d have "determine_base_url credentials' = Inr (base_url d)"
    by (auto simp: make_descriptor_def split: sum.splits option.splits)
  from determine_base_url_shape [OF this] keep
  obtain u where u: "map_of credentials ''resource_url'' = None \<and> u = QWEN_DEFAULT_BASE_URL
              \<or> map_of credentials ''resource_url'' = Some (JStr u)"
    and b: "base_url d = (let b1 = (if prefix ''http://'' u \<or> prefix ''https://'' u then u
                          else ''https://'' @ u)
                in if suffix ''/v1'' b1 then b1 else b1 @ ''/v1'')"
    by auto
  from b normalised_ends_v1 [of u] have s: "suffix ''/v1'' (base_url d)" by simp
  from b normalised_has_scheme [of u]
  have "prefix ''http://'' (base_url d) \<or> prefix ''https://'' (base_url d)" by simp
  with u b s show ?thesis by blast
qed

theorem base_url_normalised_witness:
  "get_openapi_credentials
     \<lparr> home = ''/home/u'', cwd = ''/'',
       json_load = (\<lambda>s. if s = ''doc'' then Inr [(''access_token'', JStr ''A''), (''expiry_date'', JInt 361000),
       (''resource_url'', JStr ''example.com/compat'')]
                         else Inl JSONDecodeError),
       json_dump = (\<lambda>c. ''new doc''),
       requests_post = (\<lambda>r. ConnectionFailed),
       ipdb_set_trace = None \<rparr>
     1000 1000 None
     \<lparr> files = [''/home/u/.qwen/oauth_creds.json'' \<mapsto> ''doc''], dirs = {}, posted = [] \<rparr>
   = (Inr \<lparr> api_key = JStr ''A'', base_url = ''https://example.com/compat/v1'',
            model = ''qwen3-coder-plus'' \<rparr>,
      \<lparr> files = [''/home/u/.qwen/oauth_creds.json'' \<mapsto> ''doc''], dirs = {}, posted = [] \<rparr>)
   \<and> suffix ''/v1'' ''https://example.com/compat/v1''
   \<and> prefix ''https://'' ''https://example.com/compat/v1''"
proof -
  let ?e = "\<lparr> home = ''/home/u'', cwd = ''/'',
       json_load = (\<lambda>s. if s = ''doc'' then Inr [(''access_token'', JStr ''A''), (''expiry_date'', JInt 361000),
       (''resource_url'', JStr ''example.com/compat'')]
                         else Inl JSONDecodeError),
       json_dump = (\<lambda>c. ''new doc''),
       requests_post = (\<lambda>r. ConnectionFailed),
       ipdb_set_trace = None \<rparr>"
  let ?w = "\<lparr> files = [''/home/u/.qwen/oauth_creds.json'' \<mapsto> ''doc''], dirs = {}, posted = [] \<rparr>"
  let ?c = "[(''access_token'', JStr ''A''), (''expiry_date'', JInt 361000),
       (''resource_url'', JStr ''example.com/compat'')]"
  let ?d = "\<lparr> api_key = JStr ''A'', base_url = ''https://example.com/compat/v1'',
            model = ''qwen3-coder-plus'' \<rparr>"
  have loaded: "load_qwen_credentials ?e None ?w = Inr ?c"
    by (simp add: load_qwen_credentials_def get_qwen_credential_path_def path_join_def
          path_join_step_def QWEN_DIR_def QWEN_CREDENTIAL_FILENAME_def suffix_to_prefix)
  have returned: "get_openapi_credentials ?e 1000 1000 None ?w = (Inr ?d, ?w)"
    by (simp add: get_openapi_credentials_def is_token_valid_def TOKEN_REFRESH_BUFFER_MS_def
          make_descriptor_def determine_base_url_def dict_get_def suffix_to_prefix
          load_qwen_credentials_def get_qwen_credential_path_def path_join_def
          path_join_step_def QWEN_DIR_def QWEN_CREDENTIAL_FILENAME_def suffix_to_prefix)
  from base_url_normalised [OF loaded returned] returned show ?thesis
    by (simp add: Let_def suffix_to_prefix)
qed

text \<open>
  C9. A record that is valid at the time of the check and has no \<open>access_token\<close>
  key makes \<open>get_openapi_credentials\<close> raise KeyError on the lookup, with the world
  unchanged. And no operation tests that the access token is non-empty: with the empty
  string as \<open>access_token\<close> the call returns a descriptor whose \<open>api_key\<close> is the
  empty string.
\<close>

theorem missing_access_token_key_error:
  assumes "load_qwen_credentials e custom_path w = Inr credentials"
    and "map_of credentials ''expiry_date'' = Some (JInt expiry_date)"
    and "now_check < real_of_int expiry_date - 30000"
    and "map_of credentials ''resource_url'' = None
         \<or> map_of credentials ''resource_url'' = Some (JStr u)"
  shows "(map_of credentials ''access_token'' = None \<longrightarrow>
            get_openapi_credentials e now_check now_refresh custom_path w
              = (Inl (KeyError ''access_token''), w))
       \<and> (map_of credentials ''access_token'' = Some (JStr []) \<longrightarrow>
            (\<exists>b. get_openapi_credentials e now_check now_refresh custom_path w
                    = (Inr \<lparr> api_key = JStr [], base_url = b, model = ''qwen3-coder-plus'' \<rparr>, w)))"
proof -
  have "is_token_valid now_check credentials = Inr True"
    using assms(2,3) by (simp add: is_token_valid_def TOKEN_REFRESH_BUFFER_MS_def)
  with assms(1)
  have g: "get_openapi_credentials e now_check now_refresh custom_path w
             = (make_descriptor credentials, w)"
    by (simp add: get_openapi_credentials_def)
  obtain b where "determine_base_url credentials = Inr b"
    using assms(4) by (auto simp: determine_base_url_def dict_get_def Let_def)
  then show ?thesis
    unfolding g by (simp add: make_descriptor_def)
qed

theorem missing_access_token_key_error_witness:
  "get_openapi_credentials
     \<lparr> home = ''/home/u'', cwd = ''/'',
       json_load = (\<lambda>s. if s = ''doc'' then Inr [(''refresh_token'', JStr ''R''), (''expiry_date'', JInt 361000)]
                         else Inl JSONDecodeError),
       json_dump = (\<lambda>c. ''new doc''),
       requests_post = (\<lambda>r. ConnectionFailed),
       ipdb_set_trace = None \<rparr>
     1000 1000 None
     \<lparr> files = [''/home/u/.qwen/oauth_creds.json'' \<mapsto> ''doc''], dirs = {}, posted = [] \<rparr>
   = (Inl (KeyError ''access_token''),
      \<lparr> files = [''/home/u/.qwen/oauth_creds.json'' \<mapsto> ''doc''], dirs = {}, posted = [] \<rparr>)
   \<and> get_openapi_credentials
     \<lparr> home = ''/home/u'', cwd = ''/'',
       json_load = (\<lambda>s. if s = ''doc'' then Inr [(''access_token'', JStr []), (''expiry_date'', JInt 361000)]
                         else Inl JSONDecodeError),
       json_dump = (\<lambda>c. ''new doc''),
       requests_post = (\<lambda>r. ConnectionFailed),
       ipdb_set_trace = None \<rparr>
     1000 1000 None
     \<lparr> files = [''/home/u/.qwen/oauth_creds.json'' \<mapsto> ''doc''], dirs = {}, posted = [] \<rparr>
   = (Inr \<lparr> api_key = JStr [],
            base_url = ''https://dashscope.aliyuncs.com/compatible-mode/v1'',
            model = ''qwen3-coder-plus'' \<rparr>,
      \<lparr> files = [''/home/u/.qwen/oauth_creds.json'' \<mapsto> ''doc''], dirs = {}, posted = [] \<rparr>)"
proof -
  let ?e = "\<lparr> home = ''/home/u'', cwd = ''/'',
       json_load = (\<lambda>s. if s = ''doc'' then Inr [(''refresh_token'', JStr ''R''), (''expiry_date'', JInt 361000)]
                         else Inl JSONDecodeError),
       json_dump = (\<lambda>c. ''new doc''),
       requests_post = (\<lambda>r. ConnectionFailed),
       ipdb_set_trace = None \<rparr>"
  let ?e' = "\<lparr> home = ''/home/u'', cwd = ''/'',
       json_load = (\<lambda>s. if s = ''doc'' then Inr [(''access_token'', JStr []), (''expiry_date'', JInt 361000)]
                         else Inl JSONDecodeError),
       json_dump = (\<lambda>c. ''new doc''),
       requests_post = (\<lambda>r. ConnectionFailed),
       ipdb_set_trace = None \<rparr>"
  let ?w = "\<lparr> files = [''/home/u/.qwen/oauth_creds.json'' \<mapsto> ''doc''], dirs = {}, posted = [] \<rparr>"
  let ?c = "[(''refresh_token'', JStr ''R''), (''expiry_date'', JInt 361000)]"
  let ?c' = "[(''access_token'', JStr []), (''expiry_date'', JInt 361000)]"
  have loaded: "load_qwen_credentials ?e None ?w = Inr ?c"
    by (simp add: load_qwen_credentials_def get_qwen_credential_path_def path_join_def
          path_join_step_def QWEN_DIR_def QWEN_CREDENTIAL_FILENAME_def suffix_to_prefix)
  have loaded': "load_qwen_credentials ?e' None ?w = Inr ?c'"
    by (simp add: load_qwen_credentials_def get_qwen_credential_path_def path_join_def
          path_join_step_def QWEN_DIR_def QWEN_CREDENTIAL_FILENAME_def suffix_to_prefix)
  have expiry: "map_of ?c ''expiry_date'' = Some (JInt 361000)"
    "map_of ?c' ''expiry_date'' = Some (JInt 361000)" by simp_all
  have early: "(1000::real) < real_of_int 361000 - 30000" by simp
  have no_url: "map_of ?c ''resource_url'' = None \<or> map_of ?c ''resource_url'' = Some (JStr [])"
    "map_of ?c' ''resource_url'' = None \<or> map_of ?c' ''resource_url'' = Some (JStr [])"
    by simp_all
  have no_token: "map_of ?c ''access_token'' = None" by simp
  have empty_token: "map_of ?c' ''access_token'' = Some (JStr [])" by simp
  from missing_access_token_key_error [OF loaded expiry(1) early no_url(1),
         where now_refresh = 1000] no_token
  have first: "get_openapi_credentials ?e 1000 1000 None ?w = (Inl (KeyError ''access_token''), ?w)"
    by blast
  from missing_access_token_key_error [OF loaded' expiry(2) early no_url(2),
         where now_refresh = 1000] empty_token
  have returns: "\<exists>b. get_openapi_credentials ?e' 1000 1000 None ?w
      = (Inr \<lparr> api_key = JStr [], base_url = b, model = ''qwen3-coder-plus'' \<rparr>, ?w)"
    by blast
  have second: "get_openapi_credentials ?e' 1000 1000 None ?w = (Inr \<lparr> api_key = JStr [],
            base_url = ''https://dashscope.aliyuncs.com/compatible-mode/v1'',
            model = ''qwen3-coder-plus'' \<rparr>, ?w)"
    by (simp add: get_openapi_credentials_def is_token_valid_def TOKEN_REFRESH_BUFFER_MS_def
          make_descriptor_def determine_base_url_def dict_get_def QWEN_DEFAULT_BASE_URL_def
          suffix_to_prefix
          load_qwen_credentials_def get_qwen_credential_path_def path_join_def
          path_join_step_def QWEN_DIR_def QWEN_CREDENTIAL_FILENAME_def suffix_to_prefix)
  from first second show ?thesis by simp
qed

subsection \<open>Path resolution\<close>

text \<open>
  A path made of one or more components, each after one slash, none of them empty,
  \<open>.\<close> or \<open>..\<close>, is left as it is by \<open>normpath\<close>.
\<close>

lemma str_split_not_Nil: "str_split c s \<noteq> []"
  by (induction s) (auto split: list.splits)

lemma str_split_append:
  assumes "c \<notin> set a"
  shows "str_split c (a @ s) = (a @ hd (str_split c s)) # tl (str_split c s)"
  using assms
proof (induction a)
  case Nil
  then show ?case using str_split_not_Nil [of c s] by simp
next
  case (Cons x a)
  then show ?case by (auto split: list.splits)
qed

lemma str_split_normal:
  assumes "\<forall>a\<in>set comps. CHR ''/'' \<notin> set a"
  shows "str_split CHR ''/'' (concat (map ((#) CHR ''/'') comps)) = [] # comps"
  using assms
proof (induction comps)
  case Nil
  then show ?case by simp
next
  case (Cons a comps)
  then show ?case by (simp add: str_split_append)
qed

lemma normpath_step_normal:
  assumes "a \<noteq> []" "a \<noteq> ''.''" "a \<noteq> ''..''"
  shows "normpath_step b acc a = acc @ [a]"
  using assms by (simp add: normpath_step_def)

lemma foldl_normpath_step_normal:
  assumes "\<forall>a\<in>set comps. a \<noteq> [] \<and> a \<noteq> ''.'' \<and> a \<noteq> ''..''"
  shows "foldl (normpath_step b) acc comps = acc @ comps"
  using assms
  by (induction comps arbitrary: acc) (simp_all add: normpath_step_normal)

lemma str_join_Cons:
  "str_join ''/'' (a # comps) = a @ concat (map ((#) CHR ''/'') comps)"
  by (induction comps arbitrary: a) simp_all

lemma str_join_slash:
  "comps \<noteq> [] \<Longrightarrow> ''/'' @ str_join ''/'' comps = concat (map ((#) CHR ''/'') comps)"
  by (cases comps) (simp_all add: str_join_Cons)

lemma normpath_normal:
  assumes "comps \<noteq> []"
    and "\<forall>a\<in>set comps. a \<noteq> [] \<and> CHR ''/'' \<notin> set a \<and> a \<noteq> ''.'' \<and> a \<noteq> ''..''"
  shows "normpath (concat (map ((#) CHR ''/'') comps)) = concat (map ((#) CHR ''/'') comps)"
proof -
  let ?p = "concat (map ((#) CHR ''/'') comps)"
  obtain a rest where comps: "comps = a # rest" using assms(1) by (cases comps) auto
  with assms(2) obtain x a' where a: "a = x # a'" "x \<noteq> CHR ''/''" by (cases a) auto
  have p: "?p = CHR ''/'' # x # a' @ concat (map ((#) CHR ''/'') rest)"
    using comps a by simp
  have split: "str_split CHR ''/'' ?p = [] # comps"
    using assms(2) by (intro str_split_normal) simp
  have fold: "foldl (normpath_step True) [] ([] # comps) = comps"
    using foldl_normpath_step_normal [of comps True "[]"] assms(2)
    by (simp add: normpath_step_def)
  have "normpath ?p = ''/'' @ str_join ''/'' comps"
    unfolding normpath_def split
    using a(2) fold assms(1) by (simp add: p Let_def)
  then show ?thesis using str_join_slash [OF assms(1)] by simp
qed

text \<open>
  C7, as stated, fails: an absolute custom path is not returned unchanged but
  normalised by \<open>os.path.abspath\<close>, so \<open>/tmp/../creds.json\<close> resolves to
  \<open>/creds.json\<close>; and after \<open>~/\<close> a remainder that starts with a slash replaces the
  home directory instead of being put under it, so \<open>~//etc/creds.json\<close> resolves to
  \<open>/etc/creds.json\<close>.
\<close>

theorem get_qwen_credential_path_counterexample:
  "get_qwen_credential_path
     \<lparr> home = ''/home/u'', cwd = ''/srv'', json_load = (\<lambda>s. Inl JSONDecodeError),
       json_dump = (\<lambda>c. []), requests_post = (\<lambda>r. ConnectionFailed),
       ipdb_set_trace = None \<rparr>
     (Some ''/tmp/../creds.json'') = ''/creds.json''
   \<and> get_qwen_credential_path
     \<lparr> home = ''/home/u'', cwd = ''/srv'', json_load = (\<lambda>s. Inl JSONDecodeError),
       json_dump = (\<lambda>c. []), requests_post = (\<lambda>r. ConnectionFailed),
       ipdb_set_trace = None \<rparr>
     (Some ''/tmp/../creds.json'') \<noteq> ''/tmp/../creds.json''
   \<and> get_qwen_credential_path
     \<lparr> home = ''/home/u'', cwd = ''/srv'', json_load = (\<lambda>s. Inl JSONDecodeError),
       json_dump = (\<lambda>c. []), requests_post = (\<lambda>r. ConnectionFailed),
       ipdb_set_trace = None \<rparr>
     (Some ''~//etc/creds.json'') = ''/etc/creds.json''"
  by (simp add: get_qwen_credential_path_def abspath_def normpath_def normpath_step_def
                path_join_def path_join_step_def)

text \<open>
  C7, amended. \<open>get_qwen_credential_path\<close> is a total function of the environment
  and the custom path; it reads no file. Without a custom path it returns the home
  directory joined with \<open>.qwen\<close> and \<open>oauth_creds.json\<close>, and for a custom path
  \<open>~/rest\<close> the home directory joined with \<open>rest\<close>; when the home directory is not
  empty and does not end with a slash these are \<open><home>/.qwen/oauth_creds.json\<close>
  and, for a \<open>rest\<close> that does not start with a slash, \<open><home>/rest\<close>. For an absolute
  custom path it returns the normalised path, which is the path itself when it
  consists of one or more components, each after a single slash, none of them empty,
  \<open>.\<close> or \<open>..\<close>.
\<close>

theorem get_qwen_credential_path_cases:
  "get_qwen_credential_path e None = path_join (home e) [''.qwen'', ''oauth_creds.json'']
   \<and> get_qwen_credential_path e (Some (''~/'' @ rest)) = path_join (home e) [rest]
   \<and> (home e \<noteq> [] \<and> \<not> suffix ''/'' (home e) \<longrightarrow>
         get_qwen_credential_path e None = home e @ ''/.qwen/oauth_creds.json''
         \<and> (\<not> prefix ''/'' rest \<longrightarrow>
               get_qwen_credential_path e (Some (''~/'' @ rest)) = home e @ ''/'' @ rest))
   \<and> (prefix ''/'' p \<longrightarrow> get_qwen_credential_path e (Some p) = normpath p)
   \<and> (comps \<noteq> []
        \<and> (\<forall>a\<in>set comps. a \<noteq> [] \<and> CHR ''/'' \<notin> set a \<and> a \<noteq> ''.'' \<and> a \<noteq> ''..'') \<longrightarrow>
         get_qwen_credential_path e (Some (concat (map ((#) CHR ''/'') comps)))
           = concat (map ((#) CHR ''/'') comps))"
proof -
  have default: "get_qwen_credential_path e None
                   = path_join (home e) [''.qwen'', ''oauth_creds.json'']"
    by (simp add: get_qwen_credential_path_def QWEN_DIR_def QWEN_CREDENTIAL_FILENAME_def)
  have tilde: "get_qwen_credential_path e (Some (''~/'' @ rest)) = path_join (home e) [rest]"
    by (simp add: get_qwen_credential_path_def)
  have absolute: "get_qwen_credential_path e (Some p) = normpath p" if "prefix ''/'' p" for p
    using that by (cases p) (auto simp: get_qwen_credential_path_def abspath_def)
  have explicit: "path_join (home e) [''.qwen'', ''oauth_creds.json'']
                    = home e @ ''/.qwen/oauth_creds.json''"
    if "home e \<noteq> []" "\<not> suffix ''/'' (home e)"
    using that by (simp add: path_join_def path_join_step_def suffix_def)
  have explicit_tilde: "path_join (home e) [rest] = home e @ ''/'' @ rest"
    if "home e \<noteq> []" "\<not> suffix ''/'' (home e)" "\<not> prefix ''/'' rest"
    using that by (simp add: path_join_def path_join_step_def)
  have normal: "get_qwen_credential_path e (Some (concat (map ((#) CHR ''/'') comps)))
                  = concat (map ((#) CHR ''/'') comps)"
    if "comps \<noteq> []"
       "\<forall>a\<in>set comps. a \<noteq> [] \<and> CHR ''/'' \<notin> set a \<and> a \<noteq> ''.'' \<and> a \<noteq> ''..''"
  proof -
    from that(1) have "prefix ''/'' (concat (map ((#) CHR ''/'') comps))"
      by (cases comps) simp_all
    from absolute [OF this] normpath_normal [OF that] show ?thesis by simp
  qed
  show ?thesis
    using default tilde absolute explicit explicit_tilde normal by simp
qed

theorem get_qwen_credential_path_cases_witness:
  "get_qwen_credential_path
     \<lparr> home = ''/home/u'', cwd = ''/srv'', json_load = (\<lambda>s. Inl JSONDecodeError),
       json_dump = (\<lambda>c. []), requests_post = (\<lambda>r. ConnectionFailed),
       ipdb_set_trace = None \<rparr>
     None = ''/home/u/.qwen/oauth_creds.json''
   \<and> get_qwen_credential_path
     \<lparr> home = ''/home/u'', cwd = ''/srv'', json_load = (\<lambda>s. Inl JSONDecodeError),
       json_dump = (\<lambda>c. []), requests_post = (\<lambda>r. ConnectionFailed),
       ipdb_set_trace = None \<rparr>
     (Some ''~/foo.json'') = ''/home/u/foo.json''
   \<and> get_qwen_credential_path
     \<lparr> home = ''/home/u'', cwd = ''/srv'', json_load = (\<lambda>s. Inl JSONDecodeError),
       json_dump = (\<lambda>c. []), requests_post = (\<lambda>r. ConnectionFailed),
       ipdb_set_trace = None \<rparr>
     (Some ''/abs/path.json'') = ''/abs/path.json''"
  using get_qwen_credential_path_cases
     [where e = "\<lparr> home = ''/home/u'', cwd = ''/srv'', json_load = (\<lambda>s. Inl JSONDecodeError),
            json_dump = (\<lambda>c. []), requests_post = (\<lambda>r. ConnectionFailed),
            ipdb_set_trace = None \<rparr>"
        and rest = "''foo.json''" and p = "''/abs/path.json''"
        and comps = "[''abs'', ''path.json'']"]
  by (simp add: get_qwen_credential_path_def abspath_def normpath_def normpath_step_def
                path_join_def path_join_step_def QWEN_DIR_def QWEN_CREDENTIAL_FILENAME_def
                suffix_to_prefix)

subsection \<open>Saving what was loaded\<close>




end
